theory Spec2Isabelle
  imports Complex_Main "HOL-Library.Word"
begin

unbundle bit_operations_syntax

section \<open>The WMS tile source of osgEarth (ReaderWriterWMS.cpp)\<close>

text \<open>
  The class \<open>WMSSource\<close> is embedded as a record of its private members and one HOL
  function per member function. Everything the class calls but does not define
  (the capabilities and tile-service readers, the spatial-reference library, the
  profile registry, the image reader, the image-to-heightfield converter and the C
  library's number formatting) is a field of the record \<open>collaborators\<close>: the
  theorems hold for every behaviour of these services.

  Pointers are addresses; \<open>None\<close> is the null pointer. Two profiles are the same
  object exactly when their addresses are equal. Dereferencing a null pointer, and
  undefined behaviour of \<open>sprintf\<close>, are values of the type \<open>fault\<close>.
\<close>

subsection \<open>Numbers\<close>

text \<open>
  A C++ \<open>double\<close> is its IEEE 754 binary64 bit pattern. The class only compares
  doubles with \<open>==\<close> and prints them, so no arithmetic on them is needed. \<open>==\<close> is
  not equality of bit patterns: a NaN equals nothing, and the two zeros are equal.
\<close>

type_synonym double = "64 word"

definition isnan :: "double \<Rightarrow> bool" where
  "isnan d \<longleftrightarrow> 0x7FF0000000000000 < (d AND 0x7FFFFFFFFFFFFFFF)"

definition iszero :: "double \<Rightarrow> bool" where
  "iszero d \<longleftrightarrow> (d AND 0x7FFFFFFFFFFFFFFF) = 0"

definition double_eq :: "double \<Rightarrow> double \<Rightarrow> bool" where
  "double_eq a b \<longleftrightarrow> \<not> isnan a \<and> \<not> isnan b \<and> (a = b \<or> (iszero a \<and> iszero b))"

text \<open>
  A C++ \<open>float\<close> is its IEEE 754 binary32 bit pattern: a sign bit, eight bits of
  exponent and twenty-three bits of fraction. \<open>float_value\<close> is the number a finite
  float stands for; an infinity or a NaN stands for none.
\<close>

type_synonym float = "32 word"

definition float_value :: "float \<Rightarrow> real option" where
  "float_value f =
     (let e = unat (drop_bit 23 f AND 0xFF);
          m = unat (f AND 0x7FFFFF);
          magnitude = (if e = 0 then real m / 2 ^ 149
                       else if e < 150 then real (2 ^ 23 + m) / 2 ^ (150 - e)
                       else real (2 ^ 23 + m) * 2 ^ (e - 150))
      in if e = 255 then None
         else Some (if bit f 31 then - magnitude else magnitude))"

text \<open>Decimal output of an \<open>int\<close> by \<open>operator<<\<close> (the classic locale).\<close>

fun show_nat :: "nat \<Rightarrow> string" where
  "show_nat n =
     (if n < 10 then [''0123456789'' ! n]
      else show_nat (n div 10) @ [''0123456789'' ! (n mod 10)])"

declare show_nat.simps [simp del]

definition show_int :: "int \<Rightarrow> string" where
  "show_int i = (if i < 0 then CHR ''-'' # show_nat (nat (- i)) else show_nat (nat i))"

subsection \<open>Data\<close>

type_synonym addr = nat

datatype fault = NullDereference | MissingArgument | UnsupportedConversion | BufferOverflow

record GeoExtent =
  xMin :: double
  yMin :: double
  xMax :: double
  yMax :: double

definition getBounds :: "GeoExtent \<Rightarrow> double \<times> double \<times> double \<times> double" where
  "getBounds e = (xMin e, yMin e, xMax e, yMax e)"

text \<open>
  Of the enumeration \<open>Profile::ProfileType\<close> the source names \<open>TYPE_LOCAL\<close> only;
  the other enumerators are kept apart by a number.
\<close>

datatype ProfileType = TYPE_LOCAL | TYPE_OTHER nat

record Profile =
  getSRS :: addr
  getExtent :: GeoExtent
  getProfileType :: ProfileType

record TileKey =
  getGeoExtent :: GeoExtent

datatype Layer = Layer (getExtents: "double \<times> double \<times> double \<times> double")

record Capabilities =
  suggestExtension :: string
  getLayerByName :: "string \<Rightarrow> Layer option"

datatype TilePattern = TilePattern (getPrototype: string)

record TileService =
  getMatchingPatterns ::
    "string \<Rightarrow> string \<Rightarrow> string \<Rightarrow> string \<Rightarrow> int \<Rightarrow> int \<Rightarrow> TilePattern list"
  createProfile_ts :: "TilePattern list \<Rightarrow> addr option"

type_synonym Image = "real list"
type_synonym HeightField = "real list"

text \<open>
  The services the class uses. \<open>profile_at\<close> reads the profile object an address
  points to. \<open>printf_f\<close> is the text \<open>sprintf\<close> produces for one double under
  \<open>%f\<close> (fixed-point, six fractional digits). \<open>as_int\<close> is osgEarth's
  \<open>as<int>(text, default)\<close>. The converter takes the scale factor as the \<open>float\<close>
  the class hands it; the samples of an image and of a height field are the numbers
  they stand for, and the arithmetic of the converter is the converter's own.
\<close>

record collaborators =
  CapabilitiesReader_read :: "string \<Rightarrow> Capabilities option"
  SpatialReference_create :: "string \<Rightarrow> addr option"
  isEquivalentTo :: "addr \<Rightarrow> addr \<Rightarrow> bool"
  isGeographic :: "addr \<Rightarrow> bool"
  profile_at :: "addr \<Rightarrow> Profile"
  getGlobalGeodeticProfile :: addr
  Profile_create :: "string \<Rightarrow> double \<Rightarrow> double \<Rightarrow> double \<Rightarrow> double \<Rightarrow> addr option"
  TileServiceReader_read :: "string \<Rightarrow> TileService option"
  readImageFile :: "string \<Rightarrow> Image option"
  convert :: "Image option \<Rightarrow> float \<Rightarrow> HeightField option"
  printf_f :: "double \<Rightarrow> string"
  as_int :: "string \<Rightarrow> int \<Rightarrow> int"

text \<open>
  What a call leaves behind outside the object: the documents and images it
  fetches, the profiles it constructs and the messages it logs, in order.
\<close>

datatype severity = INFO | NOTICE | WARN

datatype event =
    Fetch_Capabilities string
  | Fetch_TileService string
  | Fetch_Image string
  | Construct_Profile string double double double double
  | Notify severity string

text \<open>The private members of \<open>WMSSource\<close>, without the leading underscore.\<close>

record WMSSource =
  prefix :: string
  layers :: string
  style :: string
  format :: string
  wms_format :: string
  srs :: string
  tileServiceURL :: string
  capabilitiesURL :: string
  tile_size :: int
  elevation_unit :: string
  tileService :: "TileService option"
  profile :: "addr option"
  prototype :: string

subsection \<open>The constructor\<close>

type_synonym Options = "string \<rightharpoonup> string"

definition getPluginData :: "Options \<Rightarrow> string \<Rightarrow> string option" where
  "getPluginData options key = options key"

abbreviation PROPERTY_URL :: string where "PROPERTY_URL \<equiv> ''url''"
abbreviation PROPERTY_CAPABILITIES_URL :: string where
  "PROPERTY_CAPABILITIES_URL \<equiv> ''capabilities_url''"
abbreviation PROPERTY_TILESERVICE_URL :: string where
  "PROPERTY_TILESERVICE_URL \<equiv> ''tileservice_url''"
abbreviation PROPERTY_LAYERS :: string where "PROPERTY_LAYERS \<equiv> ''layers''"
abbreviation PROPERTY_STYLE :: string where "PROPERTY_STYLE \<equiv> ''style''"
abbreviation PROPERTY_FORMAT :: string where "PROPERTY_FORMAT \<equiv> ''format''"
abbreviation PROPERTY_WMS_FORMAT :: string where "PROPERTY_WMS_FORMAT \<equiv> ''wms_format''"
abbreviation PROPERTY_TILE_SIZE :: string where "PROPERTY_TILE_SIZE \<equiv> ''tile_size''"
abbreviation PROPERTY_ELEVATION_UNIT :: string where
  "PROPERTY_ELEVATION_UNIT \<equiv> ''elevation_unit''"
abbreviation PROPERTY_SRS :: string where "PROPERTY_SRS \<equiv> ''srs''"
abbreviation PROPERTY_DEFAULT_TILE_SIZE :: string where
  "PROPERTY_DEFAULT_TILE_SIZE \<equiv> ''default_tile_size''"

text \<open>The members as the initialiser list leaves them: empty strings, size 256.\<close>

definition members_init :: WMSSource where
  "members_init =
     \<lparr> prefix = [], layers = [], style = [], format = [], wms_format = [], srs = [],
       tileServiceURL = [], capabilitiesURL = [], tile_size = 256, elevation_unit = [],
       tileService = None, profile = None, prototype = [] \<rparr>"

text \<open>
  \<open>if (options->getPluginData(KEY)) member = std::string(...)\<close>: a member is
  assigned when the option is present.
\<close>

definition configure ::
  "Options \<Rightarrow> string \<Rightarrow> (string \<Rightarrow> WMSSource \<Rightarrow> WMSSource) \<Rightarrow> WMSSource \<Rightarrow> WMSSource" where
  "configure options key assign s =
     (case getPluginData options key of Some v \<Rightarrow> assign v s | None \<Rightarrow> s)"

definition new_WMSSource :: "collaborators \<Rightarrow> Options \<Rightarrow> WMSSource" where
  "new_WMSSource env options =
     (let s0 = members_init;
          s1 = configure options PROPERTY_URL (\<lambda>v s. s\<lparr>prefix := v\<rparr>) s0;
          s2 = configure options PROPERTY_LAYERS (\<lambda>v s. s\<lparr>layers := v\<rparr>) s1;
          s3 = configure options PROPERTY_STYLE (\<lambda>v s. s\<lparr>style := v\<rparr>) s2;
          s4 = configure options PROPERTY_FORMAT (\<lambda>v s. s\<lparr>format := v\<rparr>) s3;
          s5 = configure options PROPERTY_WMS_FORMAT (\<lambda>v s. s\<lparr>wms_format := v\<rparr>) s4;
          s6 = configure options PROPERTY_CAPABILITIES_URL
                 (\<lambda>v s. s\<lparr>capabilitiesURL := v\<rparr>) s5;
          s7 = configure options PROPERTY_TILESERVICE_URL
                 (\<lambda>v s. s\<lparr>tileServiceURL := v\<rparr>) s6;
          s8 = configure options PROPERTY_ELEVATION_UNIT
                 (\<lambda>v s. s\<lparr>elevation_unit := v\<rparr>) s7;
          s9 = (case getPluginData options PROPERTY_TILE_SIZE of
                  Some v \<Rightarrow> s8\<lparr>tile_size := as_int env v 256\<rparr>
                | None \<Rightarrow>
                   configure options PROPERTY_DEFAULT_TILE_SIZE
                     (\<lambda>v s. s\<lparr>tile_size := as_int env v 256\<rparr>) s8);
          s10 = configure options PROPERTY_SRS (\<lambda>v s. s\<lparr>srs := v\<rparr>) s9
      in if elevation_unit s10 = [] then s10\<lparr>elevation_unit := ''m''\<rparr> else s10)"

subsection \<open>Resolving the profile: \<open>createProfile\<close>\<close>

definition sep_of :: "string \<Rightarrow> char" where
  "sep_of p = (if CHR ''?'' \<in> set p then CHR ''&'' else CHR ''?'')"

text \<open>The WMS request prototype written to the string stream (lines 131 to 142).\<close>

definition getmap_prototype :: "WMSSource \<Rightarrow> char \<Rightarrow> string" where
  "getmap_prototype st sep =
     prefix st @ [sep]
     @ ''SERVICE=WMS&VERSION=1.1.1&REQUEST=GetMap''
     @ ''&LAYERS='' @ layers st
     @ ''&FORMAT='' @ (if wms_format st = [] then ''image/'' @ format st else wms_format st)
     @ ''&STYLES='' @ style st
     @ ''&SRS='' @ srs st
     @ ''&WIDTH='' @ show_int (tile_size st)
     @ ''&HEIGHT='' @ show_int (tile_size st)
     @ ''&BBOX=%lf,%lf,%lf,%lf''"

text \<open>Lines 144 to 150: the map and the WMS source have the same reference.\<close>

definition same_srs_profile :: "collaborators \<Rightarrow> addr option \<Rightarrow> addr option \<Rightarrow> addr option" where
  "same_srs_profile env wms_srs mapProfile =
     (case wms_srs of
        None \<Rightarrow> None
      | Some w \<Rightarrow>
         (case mapProfile of
            None \<Rightarrow> None
          | Some mp \<Rightarrow>
             if isEquivalentTo env (getSRS (profile_at env mp)) w then Some mp else None))"

text \<open>
  Lines 152 to 182, entered when there is no result yet: the extents of the layer.
  \<open>wms_srs->isGeographic()\<close> is called without a test of \<open>wms_srs\<close>.
\<close>

definition layer_profile ::
  "collaborators \<Rightarrow> WMSSource \<Rightarrow> Capabilities \<Rightarrow> addr option
     \<Rightarrow> fault + (addr option \<times> event list)" where
  "layer_profile env st capabilities wms_srs =
     (case getLayerByName capabilities (layers st) of
        None \<Rightarrow> Inr (None, [])
      | Some layer \<Rightarrow>
         (case getExtents layer of
            (minx, miny, maxx, maxy) \<Rightarrow>
              (case wms_srs of
                 None \<Rightarrow> Inl NullDereference
               | Some w \<Rightarrow>
                  (let globalGeodetic = getGlobalGeodeticProfile env;
                       result =
                         (if isGeographic env w \<and>
                             double_eq minx (xMin (getExtent (profile_at env globalGeodetic))) \<and>
                             double_eq miny (yMin (getExtent (profile_at env globalGeodetic))) \<and>
                             double_eq maxx (xMax (getExtent (profile_at env globalGeodetic))) \<and>
                             double_eq maxy (yMax (getExtent (profile_at env globalGeodetic)))
                          then Some globalGeodetic else None)
                   in if result = None
                      then Inr (Profile_create env (srs st) minx miny maxx maxy,
                                [Construct_Profile (srs st) minx miny maxx maxy])
                      else Inr (result, [])))))"

text \<open>Lines 184 to 188: the last resort, again with an untested \<open>wms_srs\<close>.\<close>

definition last_resort_profile ::
  "collaborators \<Rightarrow> addr option \<Rightarrow> addr option \<Rightarrow> addr option \<Rightarrow> fault + addr option" where
  "last_resort_profile env result wms_srs mapProfile =
     (case result of
        Some r \<Rightarrow> Inr (Some r)
      | None \<Rightarrow>
         (case wms_srs of
            None \<Rightarrow> Inl NullDereference
          | Some w \<Rightarrow>
             if isGeographic env w then
               (case mapProfile of
                  None \<Rightarrow> Inr None
                | Some mp \<Rightarrow>
                   if getProfileType (profile_at env mp) \<noteq> TYPE_LOCAL then Inr (Some mp)
                   else Inr None)
             else Inr None))"

definition select_profile ::
  "collaborators \<Rightarrow> WMSSource \<Rightarrow> Capabilities \<Rightarrow> addr option \<Rightarrow> addr option
     \<Rightarrow> fault + (addr option \<times> event list)" where
  "select_profile env st capabilities wms_srs mapProfile =
     (case same_srs_profile env wms_srs mapProfile of
        Some r \<Rightarrow> Inr (Some r, [])
      | None \<Rightarrow>
         (case layer_profile env st capabilities wms_srs of
            Inl f \<Rightarrow> Inl f
          | Inr (result, ev) \<Rightarrow>
             (case last_resort_profile env result wms_srs mapProfile of
                Inl f \<Rightarrow> Inl f
              | Inr result' \<Rightarrow> Inr (result', ev))))"

text \<open>Lines 191 to 213: the probe for a JPL TileService.\<close>

definition with_tileServiceURL :: "char \<Rightarrow> WMSSource \<Rightarrow> WMSSource" where
  "with_tileServiceURL sep st =
     (if tileServiceURL st = []
      then st\<lparr>tileServiceURL := prefix st @ [sep] @ ''request=GetTileService''\<rparr>
      else st)"

definition probe_tileservice ::
  "collaborators \<Rightarrow> WMSSource \<Rightarrow> char \<Rightarrow> addr option
     \<Rightarrow> addr option \<times> WMSSource \<times> event list" where
  "probe_tileservice env st sep result =
     (let s1 = with_tileServiceURL sep st;
          ev1 = [Notify INFO (''[osgEarth::WMS] Testing for JPL/TileService at ''
                              @ tileServiceURL s1),
                 Fetch_TileService (tileServiceURL s1)];
          s2 = s1\<lparr>tileService := TileServiceReader_read env (tileServiceURL s1)\<rparr>
      in case tileService s2 of
           Some ts \<Rightarrow>
             (let ev2 = ev1 @ [Notify NOTICE ''[osgEarth::WMS] Found JPL/TileService spec''];
                  patterns = getMatchingPatterns ts (layers s2) (format s2) (style s2) (srs s2)
                               (tile_size s2) (tile_size s2)
              in if length patterns > 0
                 then (createProfile_ts ts patterns,
                       s2\<lparr>prototype := prefix s2 @ [sep] @ getPrototype (patterns ! 0)\<rparr>,
                       ev2)
                 else (result, s2, ev2))
         | None \<Rightarrow>
             (result, s2,
              ev1 @ [Notify INFO
                ''[osgEarth::WMS] No JPL/TileService spec found; assuming standard WMS'']))"

text \<open>Lines 104 to 107: the capabilities address, derived when none is configured.\<close>

definition with_capabilitiesURL :: "char \<Rightarrow> WMSSource \<Rightarrow> WMSSource" where
  "with_capabilitiesURL sep st =
     (if capabilitiesURL st = []
      then st\<lparr>capabilitiesURL :=
                prefix st @ [sep] @ ''SERVICE=WMS&VERSION=1.1.1&REQUEST=GetCapabilities''\<rparr>
      else st)"

text \<open>
  Lines 117 to 142, after the capabilities have been read: the defaults of the
  format and of the reference, and the request prototype.
\<close>

definition init_request :: "Capabilities \<Rightarrow> char \<Rightarrow> WMSSource \<Rightarrow> WMSSource \<times> event list" where
  "init_request capabilities sep s1 =
     (let ev2 = [Notify INFO (''[osgEarth::WMS] Got capabilities from '' @ capabilitiesURL s1)];
          s2 = (if format s1 = [] then s1\<lparr>format := suggestExtension capabilities\<rparr> else s1);
          ev3 = (if format s1 = []
                 then ev2 @ [Notify NOTICE
                   (''[osgEarth::WMS] No format specified, capabilities suggested extension ''
                    @ format s2)]
                 else ev2);
          s3 = (if format s2 = [] then s2\<lparr>format := ''png''\<rparr> else s2);
          s4 = (if srs s3 = [] then s3\<lparr>srs := ''EPSG:4326''\<rparr> else s3);
          s5 = s4\<lparr>prototype := getmap_prototype s4 sep\<rparr>
      in (s5, ev3))"

text \<open>
  \<open>createProfile\<close> returns the profile (or null), the object with its members as
  the call leaves them, and the events of the call.
\<close>

definition createProfile ::
  "collaborators \<Rightarrow> WMSSource \<Rightarrow> addr option \<Rightarrow> string
     \<Rightarrow> fault + (addr option \<times> WMSSource \<times> event list)" where
  "createProfile env st mapProfile configPath =
     (let sep = sep_of (prefix st);
          s1 = with_capabilitiesURL sep st
      in case CapabilitiesReader_read env (capabilitiesURL s1) of
           None \<Rightarrow>
             Inr (None, s1,
                  [Fetch_Capabilities (capabilitiesURL s1),
                   Notify WARN ''[osgEarth::WMS] Unable to read WMS GetCapabilities; failing.''])
         | Some capabilities \<Rightarrow>
             (case init_request capabilities sep s1 of
                (s5, ev3) \<Rightarrow>
                  (case select_profile env s5 capabilities
                          (SpatialReference_create env (srs s5)) mapProfile of
                     Inl f \<Rightarrow> Inl f
                   | Inr (result, ev4) \<Rightarrow>
                      (case probe_tileservice env s5 sep result of
                         (result', s6, ev5) \<Rightarrow>
                           Inr (result',
                                s6\<lparr>prototype := prototype s6 @ ''&.'' @ format s6\<rparr>,
                                Fetch_Capabilities (capabilitiesURL s1) # ev3 @ ev4 @ ev5)))))"

subsection \<open>Rendering the request: \<open>createURI\<close>\<close>

text \<open>
  \<open>sprintf\<close> on the four doubles that \<open>createURI\<close> passes. The format is read
  character by character: outside a conversion (\<open>Literal\<close>), after \<open>%\<close> and an
  optional field width (\<open>Width\<close>), and after the length modifier \<open>l\<close> (\<open>Length\<close>).
  \<open>%%\<close> prints a percent sign; \<open>%f\<close> and \<open>%lf\<close>, with or without a width, take the
  next double and print it right-justified in the width. A conversion that finds
  no argument left is undefined behaviour (\<open>MissingArgument\<close>). Every other
  conversion (flags, a precision, another conversion character, or the end of the
  format inside a conversion) is \<open>UnsupportedConversion\<close>: the model says nothing
  about what it prints.
\<close>

datatype scan = Literal | Width "nat option" | Length "nat option"

definition digit_of :: "char \<Rightarrow> nat option" where
  "digit_of c =
     (let n = (of_char c :: nat) in if 48 \<le> n \<and> n \<le> 57 then Some (n - 48) else None)"

definition emit :: "string \<Rightarrow> fault + string \<Rightarrow> fault + string" where
  "emit s r = (case r of Inl f \<Rightarrow> Inl f | Inr t \<Rightarrow> Inr (s @ t))"

definition pad :: "nat option \<Rightarrow> string \<Rightarrow> string" where
  "pad w s = (case w of None \<Rightarrow> s | Some n \<Rightarrow> replicate (n - length s) CHR '' '' @ s)"

fun sprintf :: "(double \<Rightarrow> string) \<Rightarrow> scan \<Rightarrow> string \<Rightarrow> double list \<Rightarrow> fault + string" where
  "sprintf pf Literal [] args = Inr []"
| "sprintf pf Literal (c # cs) args =
     (if c = CHR ''%'' then sprintf pf (Width None) cs args
      else emit [c] (sprintf pf Literal cs args))"
| "sprintf pf (Width w) [] args = Inl UnsupportedConversion"
| "sprintf pf (Width w) (c # cs) args =
     (if c = CHR ''%'' \<and> w = None then emit ''%'' (sprintf pf Literal cs args)
      else if c = CHR ''l'' then sprintf pf (Length w) cs args
      else if c = CHR ''f'' then
        (case args of
           [] \<Rightarrow> Inl MissingArgument
         | a # as \<Rightarrow> emit (pad w (pf a)) (sprintf pf Literal cs as))
      else
        (case digit_of c of
           None \<Rightarrow> Inl UnsupportedConversion
         | Some d \<Rightarrow>
            (case w of
               None \<Rightarrow> if d = 0 then Inl UnsupportedConversion
                       else sprintf pf (Width (Some d)) cs args
             | Some n \<Rightarrow> sprintf pf (Width (Some (n * 10 + d))) cs args)))"
| "sprintf pf (Length w) [] args = Inl UnsupportedConversion"
| "sprintf pf (Length w) (c # cs) args =
     (if c = CHR ''f'' then
        (case args of
           [] \<Rightarrow> Inl MissingArgument
         | a # as \<Rightarrow> emit (pad w (pf a)) (sprintf pf Literal cs as))
      else Inl UnsupportedConversion)"

text \<open>
  \<open>createURI\<close> prints into \<open>char buf[2048]\<close>: the text and its terminating zero
  must fit, or \<open>sprintf\<close> writes past the buffer.
\<close>

definition createURI :: "collaborators \<Rightarrow> WMSSource \<Rightarrow> TileKey \<Rightarrow> fault + string" where
  "createURI env st key =
     (case getBounds (getGeoExtent key) of
        (minx, miny, maxx, maxy) \<Rightarrow>
          (case sprintf (printf_f env) Literal (prototype st) [minx, miny, maxx, maxy] of
             Inl f \<Rightarrow> Inl f
           | Inr buf \<Rightarrow> if length buf < 2048 then Inr buf else Inl BufferOverflow))"

subsection \<open>Fetching: \<open>createImage\<close> and \<open>createHeightField\<close>\<close>

definition createImage ::
  "collaborators \<Rightarrow> WMSSource \<Rightarrow> TileKey \<Rightarrow> fault + (Image option \<times> event list)" where
  "createImage env st key =
     (case createURI env st key of
        Inl f \<Rightarrow> Inl f
      | Inr uri \<Rightarrow> Inr (readImageFile env uri, [Fetch_Image uri]))"

text \<open>
  The two values of \<open>scaleFactor\<close>, a \<open>float\<close>. \<open>float scaleFactor = 1\<close> is the
  float 1.0. \<open>scaleFactor = 0.3048\<close> converts the \<open>double\<close> literal to the nearest
  float, which is 10227391 / 2^25 and not 0.3048.
\<close>

definition float_one :: float where
  "float_one = 0x3F800000"

definition float_0_3048 :: float where
  "float_0_3048 = 0x3E9C0EBF"

definition createHeightField ::
  "collaborators \<Rightarrow> WMSSource \<Rightarrow> TileKey \<Rightarrow> fault + (HeightField option \<times> event list)" where
  "createHeightField env st key =
     (case createImage env st key of
        Inl f \<Rightarrow> Inl f
      | Inr (img, ev) \<Rightarrow>
         (case (if img = None then
                  (case createURI env st key of
                     Inl f \<Rightarrow> Inl f
                   | Inr uri \<Rightarrow>
                      Inr [Notify INFO (''[osgEarth::WMS] Failed to read heightfield from '' @ uri)])
                else Inr []) of
            Inl f \<Rightarrow> Inl f
          | Inr ev' \<Rightarrow>
             (let scaleFactor = (if elevation_unit st = ''ft'' then float_0_3048 else float_one)
              in Inr (convert env img scaleFactor, ev @ ev'))))"

definition getPixelsPerTile :: "WMSSource \<Rightarrow> int" where
  "getPixelsPerTile st = tile_size st"

definition getExtension :: "WMSSource \<Rightarrow> string" where
  "getExtension st = format st"

subsection \<open>Derived notions used in the statements\<close>

text \<open>
  The address the tile-service probe reads, and the patterns it finds for an object
  whose format and reference have their defaults: none when no document is read.
\<close>

definition tileservice_address :: "WMSSource \<Rightarrow> string" where
  "tileservice_address st = tileServiceURL (with_tileServiceURL (sep_of (prefix st)) st)"

definition found_patterns :: "collaborators \<Rightarrow> WMSSource \<Rightarrow> TilePattern list" where
  "found_patterns env st =
     (case TileServiceReader_read env (tileservice_address st) of
        None \<Rightarrow> []
      | Some ts \<Rightarrow>
         getMatchingPatterns ts (layers st) (format st) (style st) (srs st)
           (tile_size st) (tile_size st))"

text \<open>The calls of \<open>Profile::create\<close> among the events of a call.\<close>

fun is_construction :: "event \<Rightarrow> bool" where
  "is_construction (Construct_Profile name minx miny maxx maxy) = True"
| "is_construction e = False"

definition constructions :: "event list \<Rightarrow> event list" where
  "constructions ev = filter is_construction ev"

text \<open>
  The address the capabilities are read from, and the object when the profile
  selection starts (the capabilities \<open>caps\<close> having been read).
\<close>

definition capabilities_address :: "WMSSource \<Rightarrow> string" where
  "capabilities_address st = capabilitiesURL (with_capabilitiesURL (sep_of (prefix st)) st)"

definition prepared :: "Capabilities \<Rightarrow> WMSSource \<Rightarrow> WMSSource" where
  "prepared caps st =
     fst (init_request caps (sep_of (prefix st)) (with_capabilitiesURL (sep_of (prefix st)) st))"

text \<open>The object as \<open>createProfile\<close> leaves it, if it returns.\<close>

definition resolved ::
  "collaborators \<Rightarrow> WMSSource \<Rightarrow> addr option \<Rightarrow> WMSSource option" where
  "resolved env st mapProfile =
     (case createProfile env st mapProfile [] of
        Inl f \<Rightarrow> None
      | Inr (result, st', ev) \<Rightarrow> Some st')"

text \<open>Bounds that are neither a NaN nor a zero, such as those of the whole earth.\<close>

definition ordinary :: "double \<Rightarrow> bool" where
  "ordinary d \<longleftrightarrow> \<not> isnan d \<and> \<not> iszero d"

subsection \<open>A sample service\<close>

text \<open>
  A concrete world on which the theorems are run: a server at \<open>http://x/wms\<close> with
  three layers and no tile service, the geographic reference at address 1, a
  Mercator reference at address 2, the registry's global-geodetic profile at
  address 100, a caller's geodetic profile at address 5 and a caller's Mercator profile
  at address 7. The doubles are -180, -90, 180 and 90. The sample converter multiplies
  every sample of the image by the number the scale factor stands for.
\<close>

definition west :: double where "west = 0xC066800000000000"
definition south :: double where "south = 0xC056800000000000"
definition east :: double where "east = 0x4066800000000000"
definition north :: double where "north = 0x4056800000000000"

definition whole_earth :: GeoExtent where
  "whole_earth = \<lparr> xMin = west, yMin = south, xMax = east, yMax = north \<rparr>"

definition sample_capabilities :: Capabilities where
  "sample_capabilities =
     \<lparr> suggestExtension = [],
       getLayerByName = (\<lambda>name.
         if name = ''basic'' then Some (Layer (west, south, east, north))
         else if name = ''hemisphere'' then Some (Layer (west, south, 0, north))
         else if name = ''land%20forest'' then Some (Layer (west, south, east, north))
         else None) \<rparr>"

definition sample_world :: collaborators where
  "sample_world =
     \<lparr> CapabilitiesReader_read = (\<lambda>url.
         if url = ''http://x/wms?SERVICE=WMS&VERSION=1.1.1&REQUEST=GetCapabilities''
         then Some sample_capabilities else None),
       SpatialReference_create = (\<lambda>name.
         if name = ''EPSG:4326'' then Some 1
         else if name = ''EPSG:900913'' then Some 2 else None),
       isEquivalentTo = (\<lambda>a b. a = b),
       isGeographic = (\<lambda>a. a = 1),
       profile_at = (\<lambda>a.
         if a = 7 then \<lparr> getSRS = 2, getExtent = whole_earth, getProfileType = TYPE_OTHER 2 \<rparr>
         else \<lparr> getSRS = 1, getExtent = whole_earth, getProfileType = TYPE_OTHER 1 \<rparr>),
       getGlobalGeodeticProfile = 100,
       Profile_create = (\<lambda>name minx miny maxx maxy. Some 200),
       TileServiceReader_read = (\<lambda>url. None),
       readImageFile = (\<lambda>uri. if take 13 uri = ''http://x/wms?'' then Some [100, 250] else None),
       convert = (\<lambda>img s.
         case float_value s of
           None \<Rightarrow> None
         | Some x \<Rightarrow> map_option (map (\<lambda>v. v * x)) img),
       printf_f = (\<lambda>d.
         if d = west then ''-180.000000'' else if d = south then ''-90.000000''
         else if d = east then ''180.000000'' else if d = north then ''90.000000''
         else ''0.000000''),
       as_int = (\<lambda>text d. d) \<rparr>"

definition sample_tileservice :: TileService where
  "sample_tileservice =
     \<lparr> getMatchingPatterns = (\<lambda>l f s r w h.
         [TilePattern ''request=GetMap&layers=global_mosaic&bbox=%lf,%lf,%lf,%lf'',
          TilePattern ''request=GetMap&layers=global_mosaic_base&bbox=%lf,%lf,%lf,%lf'']),
       createProfile_ts = (\<lambda>patterns. Some 300) \<rparr>"

definition tiled_world :: collaborators where
  "tiled_world =
     sample_world\<lparr>TileServiceReader_read := (\<lambda>url.
       if url = ''http://x/wms?request=GetTileService'' then Some sample_tileservice
       else None)\<rparr>"

definition sample_options :: "string \<Rightarrow> Options" where
  "sample_options name = [PROPERTY_URL \<mapsto> ''http://x/wms'', PROPERTY_LAYERS \<mapsto> name]"

definition sample_source :: "string \<Rightarrow> WMSSource" where
  "sample_source name = new_WMSSource sample_world (sample_options name)"

text \<open>The sample source with the request prototype that \<open>createProfile\<close> leaves in it.\<close>

definition sample_ready :: WMSSource where
  "sample_ready =
     (sample_source ''basic'')\<lparr>prototype :=
       ''http://x/wms?SERVICE=WMS&VERSION=1.1.1&REQUEST=GetMap&LAYERS=basic&FORMAT=image/png&STYLES=&SRS=EPSG:4326&WIDTH=256&HEIGHT=256&BBOX=%lf,%lf,%lf,%lf&.png''\<rparr>"

definition sample_key :: TileKey where
  "sample_key = \<lparr> getGeoExtent = \<lparr> xMin = west, yMin = south, xMax = 0, yMax = north \<rparr> \<rparr>"

section \<open>Facts about the model\<close>

subsection \<open>Doubles and the phases of \<open>createProfile\<close>\<close>

lemma sample_doubles: "\<not> isnan west" "\<not> iszero west" "\<not> isnan south" "\<not> iszero south"
  "\<not> isnan east" "\<not> iszero east"  "\<not> isnan north" "\<not> iszero north"
  by (simp_all add: isnan_def iszero_def west_def south_def east_def north_def)

lemma double_eq_ordinary: "ordinary g \<Longrightarrow> double_eq x g \<longleftrightarrow> x = g"
  by (auto simp: ordinary_def double_eq_def)

lemma getmap_prototype_prototype [simp]:
  "getmap_prototype (st\<lparr>prototype := p\<rparr>) sep = getmap_prototype st sep"
  by (simp add: getmap_prototype_def)

lemma prepared_fields [simp]:
  "prefix (prepared caps st) = prefix st"
  "layers (prepared caps st) = layers st"
  "style (prepared caps st) = style st"
  "wms_format (prepared caps st) = wms_format st"
  "tile_size (prepared caps st) = tile_size st"
  "elevation_unit (prepared caps st) = elevation_unit st"
  "tileServiceURL (prepared caps st) = tileServiceURL st"
  "tileService (prepared caps st) = tileService st"
  by (simp_all add: prepared_def init_request_def with_capabilitiesURL_def Let_def)

lemma prepared_format:
  "format (prepared caps st) =
     (if format st = [] then (if suggestExtension caps = [] then ''png'' else suggestExtension caps)
      else format st)"
  by (simp add: prepared_def init_request_def with_capabilitiesURL_def Let_def)

lemma prepared_srs:
  "srs (prepared caps st) = (if srs st = [] then ''EPSG:4326'' else srs st)"
  by (simp add: prepared_def init_request_def with_capabilitiesURL_def Let_def)

lemma prepared_prototype:
  "prototype (prepared caps st) = getmap_prototype (prepared caps st) (sep_of (prefix st))"
  by (simp add: prepared_def init_request_def Let_def)

lemma prepared_tileservice_address [simp]:
  "tileservice_address (prepared caps st) = tileservice_address st"
  by (simp add: tileservice_address_def with_tileServiceURL_def)

lemma constructions_init_request [simp]:
  "constructions (snd (init_request caps sep st)) = []"
  by (simp add: init_request_def Let_def constructions_def)

lemma constructions_Cons:
  "constructions (e # es) = (if is_construction e then e # constructions es else constructions es)"
  by (simp add: constructions_def)

lemma constructions_append [simp]:
  "constructions (xs @ ys) = constructions xs @ constructions ys"
  by (simp add: constructions_def)

lemma select_profile_same:
  assumes "isEquivalentTo env (getSRS (profile_at env mp)) w"
  shows "select_profile env st caps (Some w) (Some mp) = Inr (Some mp, [])"
  using assms by (simp add: select_profile_def same_srs_profile_def)

lemma select_profile_returns:
  "\<exists>r ev. select_profile env st caps (Some w) mapProfile = Inr (r, ev)"
  by (auto simp: select_profile_def layer_profile_def last_resort_profile_def Let_def
      split: option.splits prod.splits sum.splits)

lemma probe_no_patterns:
  assumes "found_patterns env st = []" and "sep = sep_of (prefix st)"
  shows "\<exists>s6 ev. probe_tileservice env st sep r = (r, s6, ev) \<and> prototype s6 = prototype st
           \<and> format s6 = format st \<and> constructions ev = []"
  using assms
  by (auto simp: found_patterns_def probe_tileservice_def with_tileServiceURL_def Let_def
      tileservice_address_def constructions_def split: option.splits)

lemma probe_patterns:
  assumes "TileServiceReader_read env (tileservice_address st) = Some ts"
    and "getMatchingPatterns ts (layers st) (format st) (style st) (srs st)
           (tile_size st) (tile_size st) = p # ps"
    and "sep = sep_of (prefix st)"
  shows "\<exists>s6 ev. probe_tileservice env st sep r = (createProfile_ts ts (p # ps), s6, ev)
           \<and> prototype s6 = prefix st @ [sep] @ getPrototype p \<and> format s6 = format st
           \<and> tileService s6 = Some ts"
  using assms
  by (auto simp: probe_tileservice_def with_tileServiceURL_def Let_def tileservice_address_def
      split: option.splits)

lemma createProfile_read:
  assumes "CapabilitiesReader_read env (capabilities_address st) = Some caps"
  shows "createProfile env st mapProfile configPath =
     (case select_profile env (prepared caps st) caps
             (SpatialReference_create env (srs (prepared caps st))) mapProfile of
        Inl f \<Rightarrow> Inl f
      | Inr (result, ev4) \<Rightarrow>
         (case probe_tileservice env (prepared caps st) (sep_of (prefix st)) result of
            (result', s6, ev5) \<Rightarrow>
              Inr (result', s6\<lparr>prototype := prototype s6 @ ''&.'' @ format s6\<rparr>,
                   Fetch_Capabilities (capabilities_address st)
                   # snd (init_request caps (sep_of (prefix st))
                            (with_capabilitiesURL (sep_of (prefix st)) st)) @ ev4 @ ev5)))"
  using assms unfolding createProfile_def capabilities_address_def prepared_def Let_def
  by (simp add: case_prod_beta)

lemma layer_profile_found:
  assumes layer: "getLayerByName caps (layers st) = Some (Layer (minx, miny, maxx, maxy))"
    and g: "g = getExtent (profile_at env (getGlobalGeodeticProfile env))"
    and ord: "ordinary (xMin g)" "ordinary (yMin g)" "ordinary (xMax g)" "ordinary (yMax g)"
  shows "layer_profile env st caps (Some w) =
     (if isGeographic env w \<and> (minx, miny, maxx, maxy) = getBounds g
      then Inr (Some (getGlobalGeodeticProfile env), [])
      else Inr (Profile_create env (srs st) minx miny maxx maxy,
                [Construct_Profile (srs st) minx miny maxx maxy]))"
proof -
  have eqs: "\<And>x. double_eq x (xMin g) \<longleftrightarrow> x = xMin g" "\<And>x. double_eq x (yMin g) \<longleftrightarrow> x = yMin g"
    "\<And>x. double_eq x (xMax g) \<longleftrightarrow> x = xMax g" "\<And>x. double_eq x (yMax g) \<longleftrightarrow> x = yMax g"
    using ord by (simp_all add: double_eq_ordinary)
  show ?thesis
    unfolding layer_profile_def Let_def g [symmetric]
    by (simp add: layer eqs getBounds_def)
qed

lemma select_profile_layer:
  assumes no_same: "same_srs_profile env (Some w) mapProfile = None"
    and layer: "getLayerByName caps (layers st) = Some (Layer (minx, miny, maxx, maxy))"
    and g: "g = getExtent (profile_at env (getGlobalGeodeticProfile env))"
    and ord: "ordinary (xMin g)" "ordinary (yMin g)" "ordinary (xMax g)" "ordinary (yMax g)"
  shows "\<exists>result ev. select_profile env st caps (Some w) mapProfile = Inr (result, ev) \<and>
      (if isGeographic env w \<and> (minx, miny, maxx, maxy) = getBounds g
       then result = Some (getGlobalGeodeticProfile env) \<and> ev = []
       else ev = [Construct_Profile (srs st) minx miny maxx maxy] \<and>
            (\<forall>p. Profile_create env (srs st) minx miny maxx maxy = Some p
                   \<longrightarrow> result = Some p))"
proof (cases "isGeographic env w \<and> (minx, miny, maxx, maxy) = getBounds g")
  case True
  then show ?thesis
    by (simp add: select_profile_def no_same layer_profile_found [OF layer g ord]
        last_resort_profile_def)
next
  case False
  show ?thesis
  proof (cases "Profile_create env (srs st) minx miny maxx maxy")
    case None
    with False show ?thesis
      by (simp add: select_profile_def no_same layer_profile_found [OF layer g ord]
          last_resort_profile_def split: option.splits)
  next
    case (Some p)
    with False show ?thesis
      by (simp add: select_profile_def no_same layer_profile_found [OF layer g ord]
          last_resort_profile_def)
  qed
qed

subsection \<open>The sample service\<close>

lemma sample_source_fields:
  "prefix (sample_source name) = ''http://x/wms''"
  "layers (sample_source name) = name"
  "style (sample_source name) = []"
  "format (sample_source name) = []"
  "wms_format (sample_source name) = []"
  "srs (sample_source name) = []"
  "tileServiceURL (sample_source name) = []"
  "capabilitiesURL (sample_source name) = []"
  "tile_size (sample_source name) = 256"
  "elevation_unit (sample_source name) = ''m''"
  "prototype (sample_source name) = []"
  by (simp_all add: sample_source_def sample_options_def new_WMSSource_def configure_def
      getPluginData_def members_init_def)

lemma sample_sep: "sep_of ''http://x/wms'' = CHR ''?''"
  by (simp add: sep_of_def)

lemma sample_capabilities_address:
  "capabilities_address (sample_source name)
     = ''http://x/wms?SERVICE=WMS&VERSION=1.1.1&REQUEST=GetCapabilities''"
  by (simp add: capabilities_address_def with_capabilitiesURL_def sample_source_fields sample_sep)

lemma sample_tileservice_address:
  "tileservice_address (sample_source name) = ''http://x/wms?request=GetTileService''"
  by (simp add: tileservice_address_def with_tileServiceURL_def sample_source_fields sample_sep)

lemma sample_read:
  "CapabilitiesReader_read sample_world (capabilities_address (sample_source name))
     = Some sample_capabilities"
  "CapabilitiesReader_read tiled_world (capabilities_address (sample_source name))
     = Some sample_capabilities"
  by (simp_all add: sample_capabilities_address sample_world_def tiled_world_def)

lemma sample_prepared:
  "srs (prepared sample_capabilities (sample_source name)) = ''EPSG:4326''"
  "format (prepared sample_capabilities (sample_source name)) = ''png''"
  by (simp_all add: prepared_srs prepared_format sample_source_fields sample_capabilities_def)

lemma sample_srs:
  "SpatialReference_create sample_world (srs (prepared sample_capabilities (sample_source name)))
     = Some 1"
  "SpatialReference_create tiled_world (srs (prepared sample_capabilities (sample_source name)))
     = Some 1"
  by (simp_all add: sample_prepared sample_world_def tiled_world_def)

lemma sample_no_patterns:
  "found_patterns sample_world (prepared sample_capabilities (sample_source name)) = []"
  by (simp add: found_patterns_def sample_world_def)

lemma sample_show_int: "show_int 256 = ''256''"
  by (simp add: show_int_def show_nat.simps)

lemma sample_ordinary:
  "ordinary (xMin whole_earth)" "ordinary (yMin whole_earth)"
  "ordinary (xMax whole_earth)" "ordinary (yMax whole_earth)"
  by (simp_all add: whole_earth_def ordinary_def sample_doubles)

lemma sample_registry:
  "whole_earth = getExtent (profile_at sample_world (getGlobalGeodeticProfile sample_world))"
  by (simp add: sample_world_def)

lemma sample_mercator_caller: "same_srs_profile sample_world (Some 1) (Some 7) = None"
  by (simp add: same_srs_profile_def sample_world_def)

section \<open>The profile a resolve returns\<close>

text \<open>
  C1. When the capabilities have been read, the target reference is valid and
  equivalent to the reference of the caller's map profile, and the tile-service probe
  finds no pattern, \<open>createProfile\<close> returns the caller's profile itself (the same
  address), whatever the capabilities document says about layers.
\<close>

theorem caller_profile_reused:
  assumes "CapabilitiesReader_read env (capabilities_address st) = Some caps"
    and "SpatialReference_create env (srs (prepared caps st)) = Some w"
    and "isEquivalentTo env (getSRS (profile_at env mp)) w"
    and "found_patterns env (prepared caps st) = []"
  shows "map_sum id fst (createProfile env st (Some mp) configPath) = Inr (Some mp)"
proof -
  obtain s6 ev where
    "probe_tileservice env (prepared caps st) (sep_of (prefix st)) (Some mp) = (Some mp, s6, ev)"
    using probe_no_patterns [OF assms(4) refl, where r = "Some mp"] by simp blast
  then show ?thesis
    by (simp add: createProfile_read [OF assms(1)] assms(2) select_profile_same [OF assms(3)])
qed

text \<open>
  On the sample service the caller's profile at address 5 comes back, although the
  layer has the bounds of the registry's profile at address 100.
\<close>

theorem caller_profile_reused_witness:
  "map_sum id fst (createProfile sample_world (sample_source ''basic'') (Some 5) []) = Inr (Some 5)"
  by (rule caller_profile_reused [where caps = sample_capabilities and w = 1])
    (simp_all add: sample_read sample_srs sample_no_patterns, simp add: sample_world_def)

text \<open>
  C2. When the caller's profile is not reused, the layer is found in the
  capabilities and the tile-service probe finds no pattern: if the target reference is
  geographic and the four bounds of the layer are the bit patterns of the bounds of
  the registry's global-geodetic profile, \<open>createProfile\<close> returns the registry's
  profile itself and \<open>Profile::create\<close> is not called; otherwise \<open>Profile::create\<close>
  is called once, with the target reference and the layer's bounds, and what it
  constructs is returned. The registry's bounds are taken to be neither NaN nor zero
  (they are -180, -90, 180 and 90), where \<open>==\<close> is equality of bit patterns.
\<close>

theorem layer_extent_profile:
  assumes caps: "CapabilitiesReader_read env (capabilities_address st) = Some caps"
    and srs: "SpatialReference_create env (srs (prepared caps st)) = Some w"
    and no_same: "same_srs_profile env (Some w) mapProfile = None"
    and layer: "getLayerByName caps (layers st) = Some (Layer (minx, miny, maxx, maxy))"
    and none: "found_patterns env (prepared caps st) = []"
    and g: "g = getExtent (profile_at env (getGlobalGeodeticProfile env))"
    and ord: "ordinary (xMin g)" "ordinary (yMin g)" "ordinary (xMax g)" "ordinary (yMax g)"
  shows "\<exists>result st' ev.
      createProfile env st mapProfile configPath = Inr (result, st', ev) \<and>
      (if isGeographic env w \<and> (minx, miny, maxx, maxy) = getBounds g
       then result = Some (getGlobalGeodeticProfile env) \<and> constructions ev = []
       else constructions ev = [Construct_Profile (srs (prepared caps st)) minx miny maxx maxy] \<and>
            (\<forall>p. Profile_create env (srs (prepared caps st)) minx miny maxx maxy = Some p
                   \<longrightarrow> result = Some p))"
proof -
  have layer': "getLayerByName caps (layers (prepared caps st)) = Some (Layer (minx, miny, maxx, maxy))"
    using layer by simp
  obtain result ev4 where
    sel: "select_profile env (prepared caps st) caps (Some w) mapProfile = Inr (result, ev4)"
    and res: "if isGeographic env w \<and> (minx, miny, maxx, maxy) = getBounds g
       then result = Some (getGlobalGeodeticProfile env) \<and> ev4 = []
       else ev4 = [Construct_Profile (srs (prepared caps st)) minx miny maxx maxy] \<and>
            (\<forall>p. Profile_create env (srs (prepared caps st)) minx miny maxx maxy = Some p
                   \<longrightarrow> result = Some p)"
    using select_profile_layer [OF no_same layer' g ord] by blast
  obtain s6 ev5 where
    probe: "probe_tileservice env (prepared caps st) (sep_of (prefix st)) result = (result, s6, ev5)"
    and ev5: "constructions ev5 = []"
    using probe_no_patterns [OF none refl, where r = result] by simp blast
  have "createProfile env st mapProfile configPath =
      Inr (result, s6\<lparr>prototype := prototype s6 @ ''&.'' @ format s6\<rparr>,
           Fetch_Capabilities (capabilities_address st)
           # snd (init_request caps (sep_of (prefix st))
                    (with_capabilitiesURL (sep_of (prefix st)) st)) @ ev4 @ ev5)"
    by (simp add: createProfile_read [OF caps] srs sel probe)
  moreover have "constructions (Fetch_Capabilities (capabilities_address st)
           # snd (init_request caps (sep_of (prefix st))
                    (with_capabilitiesURL (sep_of (prefix st)) st)) @ ev4 @ ev5) = constructions ev4"
    using ev5 by (simp add: constructions_Cons)
  moreover have "constructions ev4 = ev4"
    using res by (cases "isGeographic env w \<and> (minx, miny, maxx, maxy) = getBounds g")
      (simp_all add: constructions_def)
  ultimately show ?thesis
    using res by (cases "isGeographic env w \<and> (minx, miny, maxx, maxy) = getBounds g") simp_all
qed

text \<open>
  On the sample service, with a Mercator caller: the layer with the bounds of the
  whole earth gives the registry's profile at address 100, the layer of one hemisphere
  a constructed profile.
\<close>

theorem layer_extent_profile_witness:
  "(\<exists>st' ev. createProfile sample_world (sample_source ''basic'') (Some 7) []
                = Inr (Some 100, st', ev) \<and> constructions ev = []) \<and>
   (\<exists>st' ev. createProfile sample_world (sample_source ''hemisphere'') (Some 7) []
                = Inr (Some 200, st', ev) \<and>
              constructions ev = [Construct_Profile ''EPSG:4326'' west south 0 north])"
proof
  have layer: "getLayerByName sample_capabilities (layers (sample_source ''basic''))
                 = Some (Layer (west, south, east, north))"
    by (simp add: sample_source_fields sample_capabilities_def)
  have same: "isGeographic sample_world 1 \<and> (west, south, east, north) = getBounds whole_earth"
    by (simp add: sample_world_def getBounds_def whole_earth_def)
  show "\<exists>st' ev. createProfile sample_world (sample_source ''basic'') (Some 7) []
                = Inr (Some 100, st', ev) \<and> constructions ev = []"
    using layer_extent_profile [OF sample_read(1) sample_srs(1) sample_mercator_caller layer
        sample_no_patterns sample_registry sample_ordinary, of "[]"] same
    by (simp add: sample_world_def)
next
  have layer: "getLayerByName sample_capabilities (layers (sample_source ''hemisphere''))
                 = Some (Layer (west, south, 0, north))"
    by (simp add: sample_source_fields sample_capabilities_def)
  have differs: "\<not> (isGeographic sample_world 1 \<and> (west, south, 0, north) = getBounds whole_earth)"
    by (simp add: getBounds_def whole_earth_def east_def)
  have made: "Profile_create sample_world ''EPSG:4326'' west south 0 north = Some 200"
    by (simp add: sample_world_def)
  obtain result st' ev where
    run: "createProfile sample_world (sample_source ''hemisphere'') (Some 7) []
            = Inr (result, st', ev)"
    and rest: "if isGeographic sample_world 1 \<and> (west, south, 0, north) = getBounds whole_earth
       then result = Some (getGlobalGeodeticProfile sample_world) \<and> constructions ev = []
       else constructions ev =
              [Construct_Profile (srs (prepared sample_capabilities (sample_source ''hemisphere'')))
                 west south 0 north] \<and>
            (\<forall>p. Profile_create sample_world
                    (srs (prepared sample_capabilities (sample_source ''hemisphere'')))
                    west south 0 north = Some p \<longrightarrow> result = Some p)"
    using layer_extent_profile [OF sample_read(1) sample_srs(1) sample_mercator_caller layer
        sample_no_patterns sample_registry sample_ordinary, of "[]"]
    by blast
  have "constructions ev = [Construct_Profile ''EPSG:4326'' west south 0 north]"
    and "result = Some 200"
    using rest made unfolding if_not_P [OF differs] sample_prepared by simp_all
  with run show "\<exists>st' ev. createProfile sample_world (sample_source ''hemisphere'') (Some 7) []
                = Inr (Some 200, st', ev) \<and>
              constructions ev = [Construct_Profile ''EPSG:4326'' west south 0 north]"
    by simp
qed

text \<open>
  C3. When the capabilities have been read, the profile selection has run to its end
  (with whatever result \<open>r0\<close>), and the tile-service document read by the probe
  names at least one matching pattern, \<open>createProfile\<close> returns the profile the
  document makes from the whole list of patterns, and leaves as request prototype the
  prefix, the separator, the prototype of the first pattern and the suffix
  \<open>&.\<close> with the format, in place of the WMS GetMap prototype.
\<close>

theorem tileservice_overrides:
  assumes caps: "CapabilitiesReader_read env (capabilities_address st) = Some caps"
    and sel: "select_profile env (prepared caps st) caps
                (SpatialReference_create env (srs (prepared caps st))) mapProfile = Inr (r0, ev0)"
    and ts: "TileServiceReader_read env (tileservice_address st) = Some ts"
    and pats: "getMatchingPatterns ts (layers st) (format (prepared caps st)) (style st)
                 (srs (prepared caps st)) (tile_size st) (tile_size st) = p # ps"
  shows "\<exists>st' ev. createProfile env st mapProfile configPath
                     = Inr (createProfile_ts ts (p # ps), st', ev) \<and>
           prototype st' = prefix st @ [sep_of (prefix st)] @ getPrototype p
                           @ ''&.'' @ format (prepared caps st) \<and>
           tileService st' = Some ts"
proof -
  have ts': "TileServiceReader_read env (tileservice_address (prepared caps st)) = Some ts"
    using ts by simp
  have pats': "getMatchingPatterns ts (layers (prepared caps st)) (format (prepared caps st))
      (style (prepared caps st)) (srs (prepared caps st))
      (tile_size (prepared caps st)) (tile_size (prepared caps st)) = p # ps"
    using pats by simp
  have sep: "sep_of (prefix st) = sep_of (prefix (prepared caps st))" by simp
  obtain s6 ev5 where
    probe: "probe_tileservice env (prepared caps st) (sep_of (prefix st)) r0
              = (createProfile_ts ts (p # ps), s6, ev5)"
    and s6: "prototype s6 = prefix (prepared caps st) @ [sep_of (prefix st)] @ getPrototype p"
      "format s6 = format (prepared caps st)" "tileService s6 = Some ts"
    using probe_patterns [OF ts' pats' sep, where r = r0] by blast
  show ?thesis
    by (simp add: createProfile_read [OF caps] sel probe s6)
qed

text \<open>
  With a tile service on the sample server the profile at address 300 is returned,
  although the selection had chosen the caller's profile at address 5.
\<close>

theorem tileservice_overrides_witness:
  "\<exists>st' ev. createProfile tiled_world (sample_source ''basic'') (Some 5) []
                = Inr (Some 300, st', ev) \<and>
     prototype st' = ''http://x/wms?request=GetMap&layers=global_mosaic&bbox=%lf,%lf,%lf,%lf&.png''"
proof -
  have sel: "select_profile tiled_world (prepared sample_capabilities (sample_source ''basic''))
      sample_capabilities
      (SpatialReference_create tiled_world
         (srs (prepared sample_capabilities (sample_source ''basic'')))) (Some 5)
      = Inr (Some 5, [])"
    unfolding sample_srs
    by (rule select_profile_same) (simp add: tiled_world_def sample_world_def)
  have ts: "TileServiceReader_read tiled_world (tileservice_address (sample_source ''basic''))
      = Some sample_tileservice"
    by (simp add: sample_tileservice_address tiled_world_def)
  have pats: "getMatchingPatterns sample_tileservice (layers (sample_source ''basic''))
      (format (prepared sample_capabilities (sample_source ''basic'')))
      (style (sample_source ''basic''))
      (srs (prepared sample_capabilities (sample_source ''basic'')))
      (tile_size (sample_source ''basic'')) (tile_size (sample_source ''basic''))
      = TilePattern ''request=GetMap&layers=global_mosaic&bbox=%lf,%lf,%lf,%lf''
        # [TilePattern ''request=GetMap&layers=global_mosaic_base&bbox=%lf,%lf,%lf,%lf'']"
    by (simp add: sample_tileservice_def)
  show ?thesis
    using tileservice_overrides [OF sample_read(2) sel ts pats, of "[]"]
    by (simp add: sample_tileservice_def sample_source_fields sample_sep sample_prepared) blast
qed

section \<open>Failure to read the capabilities\<close>

text \<open>
  C5. When the capabilities cannot be read, \<open>createProfile\<close> returns null at once.
  The object is as before, except that it remembers the capabilities address it
  derived: no request prototype is written, format and reference keep their values.
  The only events are the one fetch of the capabilities and the warning: no profile is
  selected or constructed, the tile service is not probed, nothing is retried.
\<close>

theorem capabilities_failure_is_fatal:
  assumes "CapabilitiesReader_read env (capabilities_address st) = None"
  shows "createProfile env st mapProfile configPath =
           Inr (None, st\<lparr>capabilitiesURL := capabilities_address st\<rparr>,
                [Fetch_Capabilities (capabilities_address st),
                 Notify WARN ''[osgEarth::WMS] Unable to read WMS GetCapabilities; failing.''])"
  using assms
  by (simp add: createProfile_def capabilities_address_def with_capabilitiesURL_def Let_def)

text \<open>The sample server with its capabilities out of reach.\<close>

theorem capabilities_failure_is_fatal_witness:
  "createProfile (sample_world\<lparr>CapabilitiesReader_read := (\<lambda>url. None)\<rparr>)
     (sample_source ''basic'') (Some 5) []
   = Inr (None,
          (sample_source ''basic'')\<lparr>capabilitiesURL :=
             ''http://x/wms?SERVICE=WMS&VERSION=1.1.1&REQUEST=GetCapabilities''\<rparr>,
          [Fetch_Capabilities ''http://x/wms?SERVICE=WMS&VERSION=1.1.1&REQUEST=GetCapabilities'',
           Notify WARN ''[osgEarth::WMS] Unable to read WMS GetCapabilities; failing.''])"
  using capabilities_failure_is_fatal
    [of "sample_world\<lparr>CapabilitiesReader_read := (\<lambda>url. None)\<rparr>" "sample_source ''basic''"
        "Some 5" "[]"]
  by (simp add: sample_capabilities_address)

section \<open>The request prototype\<close>

text \<open>
  C6. When neither \<open>format\<close> nor \<open>wms_format\<close> is configured, the GetMap prototype
  that \<open>createProfile\<close> writes has the parameter \<open>FORMAT=image/\<close> followed by the
  extension the capabilities suggest, or by \<open>png\<close> when they suggest none; and when
  no tile-service pattern replaces it, that prototype with the suffix \<open>&.\<close> and the
  same extension is what the call leaves in the object.
\<close>

theorem default_image_format:
  assumes "format st = []" and "wms_format st = []"
    and "ext = (if suggestExtension caps = [] then ''png'' else suggestExtension caps)"
    and "template = prefix st @ [sep_of (prefix st)]
           @ ''SERVICE=WMS&VERSION=1.1.1&REQUEST=GetMap''
           @ ''&LAYERS='' @ layers st
           @ ''&FORMAT='' @ ''image/'' @ ext
           @ ''&STYLES='' @ style st
           @ ''&SRS='' @ (if srs st = [] then ''EPSG:4326'' else srs st)
           @ ''&WIDTH='' @ show_int (tile_size st)
           @ ''&HEIGHT='' @ show_int (tile_size st)
           @ ''&BBOX=%lf,%lf,%lf,%lf''"
  shows "prototype (prepared caps st) = template \<and>
         (CapabilitiesReader_read env (capabilities_address st) = Some caps \<and>
          SpatialReference_create env (srs (prepared caps st)) = Some w \<and>
          found_patterns env (prepared caps st) = []
          \<longrightarrow> map_option prototype (resolved env st mapProfile) = Some (template @ ''&.'' @ ext))"
proof -
  have fmt: "format (prepared caps st) = ext"
    using assms(1,3) by (simp add: prepared_format)
  have tmpl: "prototype (prepared caps st) = template"
    unfolding prepared_prototype getmap_prototype_def
    by (simp add: fmt prepared_srs assms(2,4))
  have "map_option prototype (resolved env st mapProfile) = Some (template @ ''&.'' @ ext)"
    if caps: "CapabilitiesReader_read env (capabilities_address st) = Some caps"
      and srs: "SpatialReference_create env (srs (prepared caps st)) = Some w"
      and none: "found_patterns env (prepared caps st) = []"
  proof -
    obtain r ev4 where
      sel: "select_profile env (prepared caps st) caps (Some w) mapProfile = Inr (r, ev4)"
      using select_profile_returns by blast
    obtain s6 ev5 where
      probe: "probe_tileservice env (prepared caps st) (sep_of (prefix st)) r = (r, s6, ev5)"
      and s6: "prototype s6 = prototype (prepared caps st)" "format s6 = format (prepared caps st)"
      using probe_no_patterns [OF none, where r = r and sep = "sep_of (prefix st)"] by auto
    show ?thesis
      by (simp add: resolved_def createProfile_read [OF caps] srs sel probe s6 fmt tmpl)
  qed
  with tmpl show ?thesis by blast
qed

text \<open>The sample source with capabilities that suggest \<open>jpeg\<close>, and with none suggested.\<close>

theorem default_image_format_witness:
  "prototype (prepared (sample_capabilities\<lparr>suggestExtension := ''jpeg''\<rparr>) (sample_source ''basic''))
     = ''http://x/wms?SERVICE=WMS&VERSION=1.1.1&REQUEST=GetMap&LAYERS=basic&FORMAT=image/jpeg&STYLES=&SRS=EPSG:4326&WIDTH=256&HEIGHT=256&BBOX=%lf,%lf,%lf,%lf'' \<and>
   map_option prototype (resolved sample_world (sample_source ''basic'') (Some 5))
     = Some ''http://x/wms?SERVICE=WMS&VERSION=1.1.1&REQUEST=GetMap&LAYERS=basic&FORMAT=image/png&STYLES=&SRS=EPSG:4326&WIDTH=256&HEIGHT=256&BBOX=%lf,%lf,%lf,%lf&.png''"
proof
  show "prototype (prepared (sample_capabilities\<lparr>suggestExtension := ''jpeg''\<rparr>) (sample_source ''basic''))
     = ''http://x/wms?SERVICE=WMS&VERSION=1.1.1&REQUEST=GetMap&LAYERS=basic&FORMAT=image/jpeg&STYLES=&SRS=EPSG:4326&WIDTH=256&HEIGHT=256&BBOX=%lf,%lf,%lf,%lf''"
    using default_image_format [OF sample_source_fields(4) sample_source_fields(5) refl refl,
        of "sample_capabilities\<lparr>suggestExtension := ''jpeg''\<rparr>" "''basic''" sample_world 1 None]
    by (simp add: sample_source_fields sample_sep sample_show_int)
next
  show "map_option prototype (resolved sample_world (sample_source ''basic'') (Some 5))
     = Some ''http://x/wms?SERVICE=WMS&VERSION=1.1.1&REQUEST=GetMap&LAYERS=basic&FORMAT=image/png&STYLES=&SRS=EPSG:4326&WIDTH=256&HEIGHT=256&BBOX=%lf,%lf,%lf,%lf&.png''"
    using default_image_format [OF sample_source_fields(4) sample_source_fields(5) refl refl,
        of sample_capabilities "''basic''" sample_world 1 "Some 5"]
      sample_read(1) [of "''basic''"] sample_srs(1) [of "''basic''"]
      sample_no_patterns [of "''basic''"]
    by (simp add: sample_source_fields sample_sep sample_show_int sample_capabilities_def)
qed

section \<open>Rendering and fetching\<close>

subsection \<open>Facts about \<open>sprintf\<close>, \<open>createURI\<close> and the constructor\<close>

lemma resolved_prototype:
  assumes caps: "CapabilitiesReader_read env (capabilities_address st) = Some caps"
    and srs: "SpatialReference_create env (srs (prepared caps st)) = Some w"
    and none: "found_patterns env (prepared caps st) = []"
  shows "map_option prototype (resolved env st mapProfile)
           = Some (prototype (prepared caps st) @ ''&.'' @ format (prepared caps st))"
proof -
  obtain r ev4 where
    sel: "select_profile env (prepared caps st) caps (Some w) mapProfile = Inr (r, ev4)"
    using select_profile_returns by blast
  obtain s6 ev5 where
    probe: "probe_tileservice env (prepared caps st) (sep_of (prefix st)) r = (r, s6, ev5)"
    and s6: "prototype s6 = prototype (prepared caps st)" "format s6 = format (prepared caps st)"
    using probe_no_patterns [OF none, where r = r and sep = "sep_of (prefix st)"] by auto
  show ?thesis
    by (simp add: resolved_def createProfile_read [OF caps] srs sel probe s6)
qed

lemma sample_resolved_prototype:
  "map_option prototype (resolved sample_world (sample_source name) mapProfile)
     = Some (''http://x/wms?SERVICE=WMS&VERSION=1.1.1&REQUEST=GetMap&LAYERS='' @ name
             @ ''&FORMAT=image/png&STYLES=&SRS=EPSG:4326&WIDTH=256&HEIGHT=256''
             @ ''&BBOX=%lf,%lf,%lf,%lf&.png'')"
  unfolding resolved_prototype [OF sample_read(1) sample_srs(1) sample_no_patterns]
    prepared_prototype getmap_prototype_def
  by (simp add: sample_prepared sample_source_fields sample_sep sample_show_int)

lemma createURI_prototype:
  "createURI env st key =
     (case sprintf (printf_f env) Literal (prototype st)
             [xMin (getGeoExtent key), yMin (getGeoExtent key),
              xMax (getGeoExtent key), yMax (getGeoExtent key)] of
        Inl f \<Rightarrow> Inl f
      | Inr buf \<Rightarrow> if length buf < 2048 then Inr buf else Inl BufferOverflow)"
  by (simp add: createURI_def getBounds_def)

lemma sample_printf:
  "printf_f sample_world west = ''-180.000000''"
  "printf_f sample_world south = ''-90.000000''"
  "printf_f sample_world 0 = ''0.000000''"
  "printf_f sample_world north = ''90.000000''"
  by (simp_all add: sample_world_def west_def south_def east_def north_def)

lemma sample_uri:
  assumes "prototype st = ''http://x/wms?SERVICE=WMS&VERSION=1.1.1&REQUEST=GetMap&LAYERS=basic&FORMAT=image/png&STYLES=&SRS=EPSG:4326&WIDTH=256&HEIGHT=256&BBOX=%lf,%lf,%lf,%lf&.png''"
    and "printf_f env = printf_f sample_world"
  shows "createURI env st sample_key = Inr ''http://x/wms?SERVICE=WMS&VERSION=1.1.1&REQUEST=GetMap&LAYERS=basic&FORMAT=image/png&STYLES=&SRS=EPSG:4326&WIDTH=256&HEIGHT=256&BBOX=-180.000000,-90.000000,0.000000,90.000000&.png''"
  unfolding createURI_prototype assms
  by (simp add: sample_key_def emit_def pad_def sample_printf)

lemma nine_spaces: "replicate 9 CHR '' '' = ''         ''"
  by (simp add: eval_nat_numeral)

lemma emit_emit: "emit s (emit t r) = emit (s @ t) r"
  by (cases r) (simp_all add: emit_def)

lemma emit_Inr: "emit s (Inr t) = Inr (s @ t)"
  by (simp add: emit_def)

lemma sprintf_literal:
  "CHR ''%'' \<notin> set p \<Longrightarrow> sprintf pf Literal (p @ rest) args = emit p (sprintf pf Literal rest args)"
proof (induction p)
  case Nil
  show ?case by (cases "sprintf pf Literal rest args") (simp_all add: emit_def)
next
  case (Cons c p)
  then show ?case by (auto simp: emit_emit)
qed

lemma sprintf_lf:
  "sprintf pf Literal (''%lf'' @ rest) (a # as) = emit (pf a) (sprintf pf Literal rest as)"
  by (simp add: pad_def)

text \<open>
  The intended case: a prototype whose only percent signs are the four \<open>%lf\<close> of
  the bounding box, and a result that fits the buffer, gives the four bounds of the
  tile in the order minx, miny, maxx, maxy.
\<close>

lemma createURI_without_percent:
  assumes proto: "prototype st = p @ ''%lf,%lf,%lf,%lf'' @ q"
    and p: "CHR ''%'' \<notin> set p" and q: "CHR ''%'' \<notin> set q"
    and uri: "uri = p @ printf_f env (xMin (getGeoExtent key)) @ '','' @ printf_f env (yMin (getGeoExtent key))
          @ '','' @ printf_f env (xMax (getGeoExtent key)) @ '','' @ printf_f env (yMax (getGeoExtent key)) @ q"
    and fits: "length uri < 2048"
  shows "createURI env st key = Inr uri"
proof -
  have comma: "\<And>rest args. sprintf (printf_f env) Literal ('','' @ rest) args
      = emit '','' (sprintf (printf_f env) Literal rest args)"
    by simp
  have tail: "sprintf (printf_f env) Literal q [] = Inr q"
    using sprintf_literal [OF q, of "printf_f env" "[]" "[]"] by (simp add: emit_def)
  have "sprintf (printf_f env) Literal (p @ ''%lf'' @ '','' @ ''%lf'' @ '','' @ ''%lf'' @ '','' @ ''%lf'' @ q)
          [xMin (getGeoExtent key), yMin (getGeoExtent key),
           xMax (getGeoExtent key), yMax (getGeoExtent key)] = Inr uri"
    unfolding sprintf_literal [OF p] sprintf_lf comma tail emit_emit emit_Inr uri
    by simp
  then show ?thesis
    using fits by (simp add: createURI_prototype proto)
qed

lemma configure_unit [simp]:
  "elevation_unit (configure options key (\<lambda>v s. s\<lparr>prefix := v\<rparr>) s) = elevation_unit s"
  "elevation_unit (configure options key (\<lambda>v s. s\<lparr>layers := v\<rparr>) s) = elevation_unit s"
  "elevation_unit (configure options key (\<lambda>v s. s\<lparr>style := v\<rparr>) s) = elevation_unit s"
  "elevation_unit (configure options key (\<lambda>v s. s\<lparr>format := v\<rparr>) s) = elevation_unit s"
  "elevation_unit (configure options key (\<lambda>v s. s\<lparr>wms_format := v\<rparr>) s) = elevation_unit s"
  "elevation_unit (configure options key (\<lambda>v s. s\<lparr>capabilitiesURL := v\<rparr>) s) = elevation_unit s"
  "elevation_unit (configure options key (\<lambda>v s. s\<lparr>tileServiceURL := v\<rparr>) s) = elevation_unit s"
  "elevation_unit (configure options key (\<lambda>v s. s\<lparr>tile_size := f v\<rparr>) s) = elevation_unit s"
  "elevation_unit (configure options key (\<lambda>v s. s\<lparr>srs := v\<rparr>) s) = elevation_unit s"
  by (simp_all add: configure_def split: option.splits)

lemma tile_size_step_unit:
  "elevation_unit (case x of Some v \<Rightarrow> s\<lparr>tile_size := f v\<rparr> | None \<Rightarrow> t) =
     (case x of Some v \<Rightarrow> elevation_unit s | None \<Rightarrow> elevation_unit t)"
  by (simp split: option.splits)

lemma new_WMSSource_unit:
  "elevation_unit (new_WMSSource env options) =
     (case options PROPERTY_ELEVATION_UNIT of
        None \<Rightarrow> ''m''
      | Some v \<Rightarrow> if v = [] then ''m'' else v)"
proof -
  define s7 where "s7 =
    configure options PROPERTY_TILESERVICE_URL (\<lambda>v s. s\<lparr>tileServiceURL := v\<rparr>)
     (configure options PROPERTY_CAPABILITIES_URL (\<lambda>v s. s\<lparr>capabilitiesURL := v\<rparr>)
       (configure options PROPERTY_WMS_FORMAT (\<lambda>v s. s\<lparr>wms_format := v\<rparr>)
         (configure options PROPERTY_FORMAT (\<lambda>v s. s\<lparr>format := v\<rparr>)
           (configure options PROPERTY_STYLE (\<lambda>v s. s\<lparr>style := v\<rparr>)
             (configure options PROPERTY_LAYERS (\<lambda>v s. s\<lparr>layers := v\<rparr>)
               (configure options PROPERTY_URL (\<lambda>v s. s\<lparr>prefix := v\<rparr>) members_init))))))"
  have s7: "elevation_unit s7 = []"
    by (simp add: s7_def members_init_def)
  define s8 where "s8 = configure options PROPERTY_ELEVATION_UNIT (\<lambda>v s. s\<lparr>elevation_unit := v\<rparr>) s7"
  have s8: "elevation_unit s8 = (case options PROPERTY_ELEVATION_UNIT of None \<Rightarrow> [] | Some v \<Rightarrow> v)"
    by (simp add: s8_def configure_def getPluginData_def s7 split: option.splits)
  define s10 where "s10 = configure options PROPERTY_SRS (\<lambda>v s. s\<lparr>srs := v\<rparr>)
      (case getPluginData options PROPERTY_TILE_SIZE of
         Some v \<Rightarrow> s8\<lparr>tile_size := as_int env v 256\<rparr>
       | None \<Rightarrow> configure options PROPERTY_DEFAULT_TILE_SIZE
                   (\<lambda>v s. s\<lparr>tile_size := as_int env v 256\<rparr>) s8)"
  have s10: "elevation_unit s10 = elevation_unit s8"
    by (simp add: s10_def tile_size_step_unit split: option.splits)
  have "new_WMSSource env options
      = (if elevation_unit s10 = [] then s10\<lparr>elevation_unit := ''m''\<rparr> else s10)"
    unfolding new_WMSSource_def Let_def s10_def s8_def s7_def ..
  then show ?thesis
    by (simp add: s10 s8 split: option.splits)
qed

lemma createURI_unit [simp]:
  "createURI env (st\<lparr>elevation_unit := u\<rparr>) key = createURI env st key"
  by (simp add: createURI_def)

lemma createImage_unit [simp]:
  "createImage env (st\<lparr>elevation_unit := u\<rparr>) key = createImage env st key"
  by (simp add: createImage_def)

lemma createImage_uri:
  "createImage env st key = Inr (img, ev) \<Longrightarrow> \<exists>uri. createURI env st key = Inr uri"
  by (auto simp: createImage_def split: sum.splits)

lemma float_values:
  "float_value float_one = Some 1"
  "float_value float_0_3048 = Some (10227391 / 2 ^ 25)"
  by (simp_all add: float_value_def float_one_def float_0_3048_def)

text \<open>
  The floats next to \<open>float_0_3048\<close> on either side are farther from 0.3048: it is
  the float the literal is rounded to.
\<close>

lemma float_0_3048_nearest:
  "float_value (float_0_3048 - 1) = Some (10227390 / 2 ^ 25)"
  "float_value (float_0_3048 + 1) = Some (10227392 / 2 ^ 25)"
  "\<bar>10227391 / 2 ^ 25 - 0.3048\<bar> < \<bar>10227390 / 2 ^ 25 - (0.3048 :: real)\<bar>"
  "\<bar>10227391 / 2 ^ 25 - 0.3048\<bar> < \<bar>10227392 / 2 ^ 25 - (0.3048 :: real)\<bar>"
  by (simp_all add: float_value_def float_0_3048_def)

lemma createHeightField_scale:
  assumes "createImage env st key = Inr (img, ev)"
  shows "map_sum id fst (createHeightField env st key) =
           Inr (convert env img (if elevation_unit st = ''ft'' then float_0_3048 else float_one))"
  using assms createImage_uri [OF assms]
  by (auto simp: createHeightField_def Let_def split: sum.splits)

lemma createHeightField_not_feet:
  assumes "elevation_unit st \<noteq> ''ft''"
  shows "createHeightField env st key = createHeightField env (st\<lparr>elevation_unit := ''m''\<rparr>) key"
  using assms unfolding createHeightField_def createImage_unit createURI_unit by simp

lemma sample_image:
  assumes "prototype st = ''http://x/wms?SERVICE=WMS&VERSION=1.1.1&REQUEST=GetMap&LAYERS=basic&FORMAT=image/png&STYLES=&SRS=EPSG:4326&WIDTH=256&HEIGHT=256&BBOX=%lf,%lf,%lf,%lf&.png''"
  shows "createImage sample_world st sample_key =
     Inr (Some [100, 250],
          [Fetch_Image ''http://x/wms?SERVICE=WMS&VERSION=1.1.1&REQUEST=GetMap&LAYERS=basic&FORMAT=image/png&STYLES=&SRS=EPSG:4326&WIDTH=256&HEIGHT=256&BBOX=-180.000000,-90.000000,0.000000,90.000000&.png''])"
  unfolding createImage_def sample_uri [OF assms refl]
  by (simp add: sample_world_def)

lemma sample_ready_prototype:
  "prototype sample_ready = ''http://x/wms?SERVICE=WMS&VERSION=1.1.1&REQUEST=GetMap&LAYERS=basic&FORMAT=image/png&STYLES=&SRS=EPSG:4326&WIDTH=256&HEIGHT=256&BBOX=%lf,%lf,%lf,%lf&.png''"
  "prototype (sample_ready\<lparr>elevation_unit := u\<rparr>) = ''http://x/wms?SERVICE=WMS&VERSION=1.1.1&REQUEST=GetMap&LAYERS=basic&FORMAT=image/png&STYLES=&SRS=EPSG:4326&WIDTH=256&HEIGHT=256&BBOX=%lf,%lf,%lf,%lf&.png''"
  by (simp_all add: sample_ready_def)

lemma sample_ready_is_resolved:
  "map_option prototype (resolved sample_world (sample_source ''basic'') mapProfile)
     = Some (prototype sample_ready)"
  by (simp add: sample_resolved_prototype sample_ready_prototype)

lemma sample_convert:
  "float_value s = Some x \<Longrightarrow> convert sample_world img s = map_option (map (\<lambda>v. v * x)) img"
  by (simp add: sample_world_def)

lemma sample_heights:
  "map_sum id fst
     (createHeightField sample_world (sample_ready\<lparr>elevation_unit := ''m''\<rparr>) sample_key)
     = Inr (Some [100, 250])"
  "map_sum id fst
     (createHeightField sample_world (sample_ready\<lparr>elevation_unit := ''ft''\<rparr>) sample_key)
     = Inr (Some [100 * (10227391 / 2 ^ 25), 250 * (10227391 / 2 ^ 25)])"
  by (simp_all add: createHeightField_scale [OF sample_image [OF sample_ready_prototype(2)]]
      sample_convert [OF float_values(1)] sample_convert [OF float_values(2)])

subsection \<open>The bounding box in the rendered request\<close>

text \<open>
  C4. The claim is that every resolved prototype renders with the four bounds of the
  tile in the \<open>BBOX\<close> parameter, in order. The configured strings are copied into
  the prototype as they are, and \<open>createURI\<close> hands the prototype to \<open>sprintf\<close>
  as its format. With the layer name \<open>land%20forest\<close> (a space, URL-encoded) the
  prototype holds the conversion \<open>%20f\<close>: it takes the first bound, the \<open>BBOX\<close>
  conversions take the other three, and the last \<open>%lf\<close> finds no argument. The third
  statement shows the text \<open>sprintf\<close> would write if a fifth double, zero, lay
  behind the four: the first bound is inside the layer name, and \<open>BBOX\<close> starts with
  the second.
\<close>

theorem percent_in_layer_name:
  "map_option prototype (resolved sample_world (sample_source ''land%20forest'') None)
     = Some ''http://x/wms?SERVICE=WMS&VERSION=1.1.1&REQUEST=GetMap&LAYERS=land%20forest&FORMAT=image/png&STYLES=&SRS=EPSG:4326&WIDTH=256&HEIGHT=256&BBOX=%lf,%lf,%lf,%lf&.png'' \<and>
   map_option (\<lambda>st. createURI sample_world st sample_key)
       (resolved sample_world (sample_source ''land%20forest'') None)
     = Some (Inl MissingArgument) \<and>
   sprintf (printf_f sample_world) Literal
       ''http://x/wms?SERVICE=WMS&VERSION=1.1.1&REQUEST=GetMap&LAYERS=land%20forest&FORMAT=image/png&STYLES=&SRS=EPSG:4326&WIDTH=256&HEIGHT=256&BBOX=%lf,%lf,%lf,%lf&.png''
       [west, south, 0, north, 0]
     = Inr ''http://x/wms?SERVICE=WMS&VERSION=1.1.1&REQUEST=GetMap&LAYERS=land         -180.000000orest&FORMAT=image/png&STYLES=&SRS=EPSG:4326&WIDTH=256&HEIGHT=256&BBOX=-90.000000,0.000000,90.000000,0.000000&.png''"
proof (intro conjI)
  show p: "map_option prototype (resolved sample_world (sample_source ''land%20forest'') None)
     = Some ''http://x/wms?SERVICE=WMS&VERSION=1.1.1&REQUEST=GetMap&LAYERS=land%20forest&FORMAT=image/png&STYLES=&SRS=EPSG:4326&WIDTH=256&HEIGHT=256&BBOX=%lf,%lf,%lf,%lf&.png''"
    by (simp add: sample_resolved_prototype)
  then obtain st where st: "resolved sample_world (sample_source ''land%20forest'') None = Some st"
    and proto: "prototype st = ''http://x/wms?SERVICE=WMS&VERSION=1.1.1&REQUEST=GetMap&LAYERS=land%20forest&FORMAT=image/png&STYLES=&SRS=EPSG:4326&WIDTH=256&HEIGHT=256&BBOX=%lf,%lf,%lf,%lf&.png''"
    by blast
  have "createURI sample_world st sample_key = Inl MissingArgument"
    unfolding createURI_prototype proto
    by (simp add: sample_key_def emit_def pad_def digit_of_def)
  then show "map_option (\<lambda>st. createURI sample_world st sample_key)
       (resolved sample_world (sample_source ''land%20forest'') None)
     = Some (Inl MissingArgument)"
    by (simp add: st)
  show "sprintf (printf_f sample_world) Literal
       ''http://x/wms?SERVICE=WMS&VERSION=1.1.1&REQUEST=GetMap&LAYERS=land%20forest&FORMAT=image/png&STYLES=&SRS=EPSG:4326&WIDTH=256&HEIGHT=256&BBOX=%lf,%lf,%lf,%lf&.png''
       [west, south, 0, north, 0]
     = Inr ''http://x/wms?SERVICE=WMS&VERSION=1.1.1&REQUEST=GetMap&LAYERS=land         -180.000000orest&FORMAT=image/png&STYLES=&SRS=EPSG:4326&WIDTH=256&HEIGHT=256&BBOX=-90.000000,0.000000,90.000000,0.000000&.png''"
    by (simp add: emit_def pad_def digit_of_def sample_printf nine_spaces)
qed

subsection \<open>The scale of a height field\<close>

text \<open>
  C7 claims that the scale factor for \<open>ft\<close> is exactly 0.3048, so that the result
  for \<open>ft\<close> is the result for \<open>m\<close> with every sample multiplied by 0.3048. The
  scale factor is a \<open>float\<close>, and no float is 0.3048: on the sample service, whose
  converter multiplies by the number the scale factor stands for, the samples 100 and
  250 do not become 30.48 and 76.2.
\<close>

theorem feet_scale_is_rounded:
  "float_value float_0_3048 \<noteq> Some 0.3048 \<and>
   map_sum id fst
     (createHeightField sample_world (sample_ready\<lparr>elevation_unit := ''m''\<rparr>) sample_key)
     = Inr (Some [100, 250]) \<and>
   map_sum id fst
     (createHeightField sample_world (sample_ready\<lparr>elevation_unit := ''ft''\<rparr>) sample_key)
     \<noteq> Inr (Some [100 * 0.3048, 250 * 0.3048])"
  by (simp add: sample_heights float_values)

text \<open>
  C7, amended. For one fetched image, \<open>createHeightField\<close> hands the converter, when
  the elevation unit is \<open>ft\<close>, the float nearest to 0.3048, which stands for
  10227391 / 2^25 (about 0.30480000376701355), and for every other unit the float
  1.0. So, for a converter that multiplies every sample by the number the scale factor
  stands for, the result for \<open>ft\<close> is the result for \<open>m\<close> with every sample
  multiplied by 10227391 / 2^25.
\<close>

theorem feet_scale_factor:
  assumes "createImage env st key = Inr (img, ev)"
  shows "map_sum id fst (createHeightField env (st\<lparr>elevation_unit := ''ft''\<rparr>) key)
           = Inr (convert env img float_0_3048) \<and>
         float_value float_0_3048 = Some (10227391 / 2 ^ 25) \<and>
         (u \<noteq> ''ft'' \<longrightarrow>
            map_sum id fst (createHeightField env (st\<lparr>elevation_unit := u\<rparr>) key)
              = Inr (convert env img float_one)) \<and>
         float_value float_one = Some 1 \<and>
         ((\<forall>s x. float_value s = Some x \<longrightarrow>
             convert env img s = map_option (map (\<lambda>v. v * x)) (convert env img float_one)) \<longrightarrow>
            map_sum id fst (createHeightField env (st\<lparr>elevation_unit := ''ft''\<rparr>) key)
              = map_sum id (\<lambda>r. map_option (map (\<lambda>v. v * (10227391 / 2 ^ 25))) (fst r))
                  (createHeightField env (st\<lparr>elevation_unit := ''m''\<rparr>) key))"
proof -
  have img: "\<And>u. createImage env (st\<lparr>elevation_unit := u\<rparr>) key = Inr (img, ev)"
    using assms by simp
  have ft: "map_sum id fst (createHeightField env (st\<lparr>elevation_unit := ''ft''\<rparr>) key)
           = Inr (convert env img float_0_3048)"
    using createHeightField_scale [OF img, of "''ft''"] by simp
  have other: "map_sum id fst (createHeightField env (st\<lparr>elevation_unit := u\<rparr>) key)
              = Inr (convert env img float_one)" if "u \<noteq> ''ft''" for u
    using createHeightField_scale [OF img, of u] that by simp
  have m: "map_sum id fst (createHeightField env (st\<lparr>elevation_unit := ''m''\<rparr>) key)
              = Inr (convert env img float_one)"
    by (rule other) simp
  have scaled: "map_sum id (\<lambda>r. map_option (map (\<lambda>v. v * (10227391 / 2 ^ 25))) (fst r))
          (createHeightField env (st\<lparr>elevation_unit := ''m''\<rparr>) key)
        = Inr (map_option (map (\<lambda>v. v * (10227391 / 2 ^ 25))) (convert env img float_one))"
    using m by (cases "createHeightField env (st\<lparr>elevation_unit := ''m''\<rparr>) key") auto
  have "map_sum id fst (createHeightField env (st\<lparr>elevation_unit := ''ft''\<rparr>) key)
          = map_sum id (\<lambda>r. map_option (map (\<lambda>v. v * (10227391 / 2 ^ 25))) (fst r))
              (createHeightField env (st\<lparr>elevation_unit := ''m''\<rparr>) key)"
    if "\<forall>s x. float_value s = Some x \<longrightarrow>
          convert env img s = map_option (map (\<lambda>v. v * x)) (convert env img float_one)"
  proof -
    from that float_values(2) have "convert env img float_0_3048
        = map_option (map (\<lambda>v. v * (10227391 / 2 ^ 25))) (convert env img float_one)"
      by blast
    then show ?thesis unfolding ft scaled by (rule arg_cong)
  qed
  with ft other float_values show ?thesis by blast
qed

text \<open>The sample image has the samples 100 and 250; the sample converter multiplies.\<close>

theorem feet_scale_factor_witness:
  "map_sum id fst (createHeightField sample_world (sample_ready\<lparr>elevation_unit := ''ft''\<rparr>) sample_key)
     = Inr (Some [100 * (10227391 / 2 ^ 25), 250 * (10227391 / 2 ^ 25)]) \<and>
   map_sum id fst (createHeightField sample_world (sample_ready\<lparr>elevation_unit := ''m''\<rparr>) sample_key)
     = Inr (Some [100, 250]) \<and>
   map_sum id fst (createHeightField sample_world (sample_ready\<lparr>elevation_unit := ''ft''\<rparr>) sample_key)
     = map_sum id (\<lambda>r. map_option (map (\<lambda>v. v * (10227391 / 2 ^ 25))) (fst r))
         (createHeightField sample_world (sample_ready\<lparr>elevation_unit := ''m''\<rparr>) sample_key)"
proof -
  have linear: "\<forall>s x. float_value s = Some x \<longrightarrow>
      convert sample_world (Some [100, 250]) s
      = map_option (map (\<lambda>v. v * x)) (convert sample_world (Some [100, 250]) float_one)"
    by (simp add: sample_convert [OF float_values(1)] sample_convert)
  have m: "''m'' \<noteq> ''ft''" by simp
  note scale = feet_scale_factor [OF sample_image [OF sample_ready_prototype(1)], of "''m''"]
  have ft: "map_sum id fst
      (createHeightField sample_world (sample_ready\<lparr>elevation_unit := ''ft''\<rparr>) sample_key)
      = Inr (Some [100 * (10227391 / 2 ^ 25), 250 * (10227391 / 2 ^ 25)])"
    using scale [THEN conjunct1] by (simp add: sample_convert [OF float_values(2)])
  have metres: "map_sum id fst
      (createHeightField sample_world (sample_ready\<lparr>elevation_unit := ''m''\<rparr>) sample_key)
      = Inr (Some [100, 250])"
    using scale [THEN conjunct2, THEN conjunct2, THEN conjunct1, THEN mp, OF m]
    by (simp add: sample_convert [OF float_values(1)])
  show ?thesis
    using ft metres
      scale [THEN conjunct2, THEN conjunct2, THEN conjunct2, THEN conjunct2, THEN mp, OF linear]
    by blast
qed

text \<open>
  C8. When the image of a tile cannot be read, \<open>createHeightField\<close> does not
  fail: it logs the address it failed to read and returns what the converter makes of
  a null image, with the scale factor of the unit.
\<close>

theorem fetch_failure_degrades:
  assumes "createURI env st key = Inr uri" and "readImageFile env uri = None"
  shows "createHeightField env st key =
           Inr (convert env None (if elevation_unit st = ''ft'' then float_0_3048 else float_one),
                [Fetch_Image uri,
                 Notify INFO (''[osgEarth::WMS] Failed to read heightfield from '' @ uri)])"
  using assms by (simp add: createHeightField_def createImage_def)

text \<open>
  The sample server with no image to read.
\<close>

theorem fetch_failure_degrades_witness:
  "createHeightField (sample_world\<lparr>readImageFile := (\<lambda>uri. None)\<rparr>) sample_ready sample_key
     = Inr (convert (sample_world\<lparr>readImageFile := (\<lambda>uri. None)\<rparr>) None float_one,
            [Fetch_Image ''http://x/wms?SERVICE=WMS&VERSION=1.1.1&REQUEST=GetMap&LAYERS=basic&FORMAT=image/png&STYLES=&SRS=EPSG:4326&WIDTH=256&HEIGHT=256&BBOX=-180.000000,-90.000000,0.000000,90.000000&.png'',
             Notify INFO ''[osgEarth::WMS] Failed to read heightfield from http://x/wms?SERVICE=WMS&VERSION=1.1.1&REQUEST=GetMap&LAYERS=basic&FORMAT=image/png&STYLES=&SRS=EPSG:4326&WIDTH=256&HEIGHT=256&BBOX=-180.000000,-90.000000,0.000000,90.000000&.png''])"
proof -
  have uri: "createURI (sample_world\<lparr>readImageFile := (\<lambda>uri. None)\<rparr>) sample_ready sample_key
      = Inr ''http://x/wms?SERVICE=WMS&VERSION=1.1.1&REQUEST=GetMap&LAYERS=basic&FORMAT=image/png&STYLES=&SRS=EPSG:4326&WIDTH=256&HEIGHT=256&BBOX=-180.000000,-90.000000,0.000000,90.000000&.png''"
    by (rule sample_uri [OF sample_ready_prototype(1)]) simp
  show ?thesis
    using fetch_failure_degrades [OF uri]
    by (simp add: sample_ready_def sample_source_fields)
qed

section \<open>The elevation unit\<close>

text \<open>
  C9 claims that the stored elevation unit is always \<open>m\<close> or \<open>ft\<close>. The
  constructor stores any configured text that is not empty: \<open>feet\<close> stays
  \<open>feet\<close>.
\<close>

theorem unit_is_stored_unchecked:
  "elevation_unit (new_WMSSource sample_world [PROPERTY_ELEVATION_UNIT \<mapsto> ''feet''])
     \<notin> {''m'', ''ft''}"
  by (simp add: new_WMSSource_unit)

text \<open>
  C9, amended. After construction the stored elevation unit is \<open>m\<close> when none
  is configured or the configured text is empty, and otherwise the configured text,
  unchanged.
\<close>

theorem unit_stored:
  "elevation_unit (new_WMSSource env options) =
     (case options PROPERTY_ELEVATION_UNIT of
        None \<Rightarrow> ''m''
      | Some v \<Rightarrow> if v = [] then ''m'' else v)"
  by (rule new_WMSSource_unit)

text \<open>
  C10. The test of the unit in \<open>createHeightField\<close> is equality with the text
  \<open>ft\<close>. For every other text \<open>u\<close>: the constructor stores a configured,
  non-empty \<open>u\<close> unchanged; and an object whose unit is \<open>u\<close> fetches exactly as
  it would with the unit \<open>m\<close>, the scale factor being the float 1.0.
\<close>

theorem unit_test_is_exact:
  assumes "u \<noteq> ''ft''"
  shows "(options PROPERTY_ELEVATION_UNIT = Some u \<and> u \<noteq> []
            \<longrightarrow> elevation_unit (new_WMSSource env options) = u) \<and>
         (elevation_unit st = u \<longrightarrow>
            createHeightField env st key
              = createHeightField env (st\<lparr>elevation_unit := ''m''\<rparr>) key \<and>
            (createImage env st key = Inr (img, ev)
               \<longrightarrow> map_sum id fst (createHeightField env st key)
                     = Inr (convert env img float_one)))"
proof (intro conjI impI)
  assume "options PROPERTY_ELEVATION_UNIT = Some u \<and> u \<noteq> []"
  then show "elevation_unit (new_WMSSource env options) = u"
    by (simp add: new_WMSSource_unit)
next
  assume "elevation_unit st = u"
  with assms show "createHeightField env st key
      = createHeightField env (st\<lparr>elevation_unit := ''m''\<rparr>) key"
    by (intro createHeightField_not_feet) simp
next
  assume "elevation_unit st = u" and "createImage env st key = Inr (img, ev)"
  with assms show "map_sum id fst (createHeightField env st key) = Inr (convert env img float_one)"
    using createHeightField_scale [of env st key img ev] by auto
qed

text \<open>
  The unit \<open>FT\<close>, in capitals, on the sample service.
\<close>

theorem unit_test_is_exact_witness:
  "elevation_unit (new_WMSSource sample_world ((sample_options ''basic'')(PROPERTY_ELEVATION_UNIT \<mapsto> ''FT'')))
     = ''FT'' \<and>
   createHeightField sample_world (sample_ready\<lparr>elevation_unit := ''FT''\<rparr>) sample_key
     = createHeightField sample_world (sample_ready\<lparr>elevation_unit := ''FT'', elevation_unit := ''m''\<rparr>) sample_key \<and>
   map_sum id fst (createHeightField sample_world (sample_ready\<lparr>elevation_unit := ''FT''\<rparr>) sample_key)
     = Inr (Some [100, 250])"
proof -
  have u: "''FT'' \<noteq> ''ft''" by simp
  have opt: "((sample_options ''basic'')(PROPERTY_ELEVATION_UNIT \<mapsto> ''FT'')) PROPERTY_ELEVATION_UNIT
      = Some ''FT'' \<and> ''FT'' \<noteq> []"
    by simp
  have st: "elevation_unit (sample_ready\<lparr>elevation_unit := ''FT''\<rparr>) = ''FT''" by simp
  note img = sample_image [OF sample_ready_prototype(2), of "''FT''"]
  note exact = unit_test_is_exact [OF u,
      where options = "(sample_options ''basic'')(PROPERTY_ELEVATION_UNIT \<mapsto> ''FT'')"
        and env = sample_world and st = "sample_ready\<lparr>elevation_unit := ''FT''\<rparr>"
        and key = sample_key]
  note fetch = exact [THEN conjunct2, THEN mp, OF st]
  have scale: "map_sum id fst
      (createHeightField sample_world (sample_ready\<lparr>elevation_unit := ''FT''\<rparr>) sample_key)
      = Inr (Some [100, 250])"
    using fetch [THEN conjunct2, THEN mp, OF img] by (simp add: sample_convert [OF float_values(1)])
  show ?thesis
  proof (intro conjI)
    show "elevation_unit (new_WMSSource sample_world
        ((sample_options ''basic'')(PROPERTY_ELEVATION_UNIT \<mapsto> ''FT''))) = ''FT''"
      by (rule exact [THEN conjunct1, THEN mp, OF opt])
    show "createHeightField sample_world (sample_ready\<lparr>elevation_unit := ''FT''\<rparr>) sample_key
      = createHeightField sample_world
          (sample_ready\<lparr>elevation_unit := ''FT'', elevation_unit := ''m''\<rparr>) sample_key"
      by (rule fetch [THEN conjunct1])
    show "map_sum id fst
      (createHeightField sample_world (sample_ready\<lparr>elevation_unit := ''FT''\<rparr>) sample_key)
      = Inr (Some [100, 250])"
      by (rule scale)
  qed
qed

end
